theory Spec2Isabelle
  imports Main
begin

section \<open>Terminal color printing: the embedding of \<open>terminal.py\<close>\<close>

text \<open>
  The module keeps three enumerations of ANSI SGR escape sequences, a class
  \<open>Terminal\<close> whose methods look names up in tables built from the enumerations,
  and a context manager that replaces the process-wide \<open>builtins.print\<close> for the
  duration of a \<open>with\<close> block.

  A Python string is modelled as a \<open>string\<close> whose characters are the code points
  below 256 (ASCII and Latin-1); \<open>str.lower\<close> and \<open>repr\<close> are written out for these.
  Everything written to \<open>sys.stdout\<close> is collected in the field \<open>stdout\<close> of the
  state, in the order of the \<open>write\<close> calls.
\<close>

subsection \<open>Escape sequences and the three enumerations\<close>

definition ESC :: char where
  "ESC = CHR 0x1B"

definition NL :: string where
  "NL = [CHR 0x0A]"

text \<open>The literal \<open>"\033[<n>m"\<close> of the source.\<close>

definition sgr :: "string \<Rightarrow> string" where
  "sgr n = ESC # CHR ''['' # n @ ''m''"

text \<open>An \<open>Enum\<close> class: its members in definition order, name and value.\<close>

definition Style :: "(string \<times> string) list" where
  "Style =
    [(''BOLD'', sgr ''1''),
     (''DIM'', sgr ''2''),
     (''ITALIC'', sgr ''3''),
     (''UNDERLINE'', sgr ''4''),
     (''BLINK'', sgr ''5''),
     (''REVERSE'', sgr ''7''),
     (''HIDDEN'', sgr ''8''),
     (''STRIKE'', sgr ''9'')]"

definition TerminalColor :: "(string \<times> string) list" where
  "TerminalColor =
    [(''BLACK'', sgr ''30''),
     (''RED'', sgr ''31''),
     (''GREEN'', sgr ''32''),
     (''YELLOW'', sgr ''33''),
     (''BLUE'', sgr ''34''),
     (''MAGENTA'', sgr ''35''),
     (''CYAN'', sgr ''36''),
     (''LIGHT_GRAY'', sgr ''37''),
     (''DEFAULT'', sgr ''39''),
     (''DARK_GRAY'', sgr ''90''),
     (''LIGHT_RED'', sgr ''91''),
     (''LIGHT_GREEN'', sgr ''92''),
     (''LIGHT_YELLOW'', sgr ''93''),
     (''LIGHT_BLUE'', sgr ''94''),
     (''LIGHT_MAGENTA'', sgr ''95''),
     (''LIGHT_CYAN'', sgr ''96''),
     (''WHITE'', sgr ''97''),
     (''RESET'', sgr ''0'')]"

definition BackgroundColor :: "(string \<times> string) list" where
  "BackgroundColor =
    [(''BLACK'', sgr ''40''),
     (''RED'', sgr ''41''),
     (''GREEN'', sgr ''42''),
     (''YELLOW'', sgr ''43''),
     (''BLUE'', sgr ''44''),
     (''MAGENTA'', sgr ''45''),
     (''CYAN'', sgr ''46''),
     (''LIGHT_GRAY'', sgr ''47''),
     (''DEFAULT'', sgr ''49''),
     (''DARK_GRAY'', sgr ''100''),
     (''LIGHT_RED'', sgr ''101''),
     (''LIGHT_GREEN'', sgr ''102''),
     (''LIGHT_YELLOW'', sgr ''103''),
     (''LIGHT_BLUE'', sgr ''104''),
     (''LIGHT_MAGENTA'', sgr ''105''),
     (''LIGHT_CYAN'', sgr ''106''),
     (''WHITE'', sgr ''107'')]"

text \<open>\<open>TerminalColor.RESET.value\<close>.\<close>

definition RESET :: string where
  "RESET = sgr ''0''"

subsection \<open>Python built-ins used by the module\<close>

text \<open>\<open>str.lower\<close> on code points below 256: the 26 ASCII capitals and the
  Latin-1 capitals \<open>U+00C0\<close> to \<open>U+00DE\<close> (without the multiplication sign
  \<open>U+00D7\<close>) are moved up by 32, every other character is kept.\<close>

definition upper_letters :: string where
  "upper_letters =
     ''ABCDEFGHIJKLMNOPQRSTUVWXYZ'' @
     [CHR 0xC0, CHR 0xC1, CHR 0xC2, CHR 0xC3, CHR 0xC4, CHR 0xC5, CHR 0xC6, CHR 0xC7,
      CHR 0xC8, CHR 0xC9, CHR 0xCA, CHR 0xCB, CHR 0xCC, CHR 0xCD, CHR 0xCE, CHR 0xCF,
      CHR 0xD0, CHR 0xD1, CHR 0xD2, CHR 0xD3, CHR 0xD4, CHR 0xD5, CHR 0xD6, CHR 0xD8,
      CHR 0xD9, CHR 0xDA, CHR 0xDB, CHR 0xDC, CHR 0xDD, CHR 0xDE]"

definition lower_letters :: string where
  "lower_letters =
     ''abcdefghijklmnopqrstuvwxyz'' @
     [CHR 0xE0, CHR 0xE1, CHR 0xE2, CHR 0xE3, CHR 0xE4, CHR 0xE5, CHR 0xE6, CHR 0xE7,
      CHR 0xE8, CHR 0xE9, CHR 0xEA, CHR 0xEB, CHR 0xEC, CHR 0xED, CHR 0xEE, CHR 0xEF,
      CHR 0xF0, CHR 0xF1, CHR 0xF2, CHR 0xF3, CHR 0xF4, CHR 0xF5, CHR 0xF6, CHR 0xF8,
      CHR 0xF9, CHR 0xFA, CHR 0xFB, CHR 0xFC, CHR 0xFD, CHR 0xFE]"

text \<open>A capital letter is one of \<open>upper_letters\<close>: its code point is from 65 to 90,
  or from 192 to 222 and not 215. Adding 32 to such a code point is setting the
  bit of value 32, which is clear in all of them.\<close>

definition is_upper :: "char \<Rightarrow> bool" where
  "is_upper c =
     (let n = (of_char c :: nat)
      in (65 \<le> n \<and> n \<le> 90) \<or> (192 \<le> n \<and> n \<le> 222 \<and> n \<noteq> 215))"

definition lower_char :: "char \<Rightarrow> char" where
  "lower_char c =
     (if is_upper c
      then (case c of Char b0 b1 b2 b3 b4 b5 b6 b7 \<Rightarrow> Char b0 b1 b2 b3 b4 True b6 b7)
      else c)"

definition lower :: "string \<Rightarrow> string" where
  "lower s = map lower_char s"

text \<open>\<open>sep.join(strings)\<close>.\<close>

fun join :: "string \<Rightarrow> string list \<Rightarrow> string" where
  "join sep [] = []"
| "join sep [x] = x"
| "join sep (x # y # ys) = x @ sep @ join sep (y # ys)"

text \<open>
  The values that reach \<open>print\<close> in this module: a string, \<open>None\<close>, or a list of
  strings (the \<open>styles\<close> argument). \<open>py_str\<close> is Python's \<open>str()\<close> on them; a list
  shows the \<open>repr\<close> of its elements, which quotes the string and escapes the
  quote, the backslash and every code point that is not printable: below 32,
  from 127 to 160, and 173.
\<close>

datatype pyval = PyStr string | PyNone | PyList "string list"

definition hexdigit :: "nat \<Rightarrow> char" where
  "hexdigit n = ''0123456789abcdef'' ! (n mod 16)"

definition repr_char :: "char \<Rightarrow> char \<Rightarrow> string" where
  "repr_char q c =
     (if c = q \<or> c = CHR 0x5C then [CHR 0x5C, c]
      else if c = CHR 0x09 then [CHR 0x5C, CHR ''t'']
      else if c = CHR 0x0A then [CHR 0x5C, CHR ''n'']
      else if c = CHR 0x0D then [CHR 0x5C, CHR ''r'']
      else if (of_char c :: nat) < 32 \<or> (127 \<le> (of_char c :: nat) \<and> (of_char c :: nat) \<le> 160)
              \<or> (of_char c :: nat) = 173
        then [CHR 0x5C, CHR ''x'', hexdigit ((of_char c :: nat) div 16), hexdigit (of_char c)]
      else [c])"

definition py_repr :: "string \<Rightarrow> string" where
  "py_repr s =
     (let q = (if CHR 0x27 \<in> set s \<and> CHR 0x22 \<notin> set s then CHR 0x22 else CHR 0x27)
      in q # concat (map (repr_char q) s) @ [q])"

fun py_str :: "pyval \<Rightarrow> string" where
  "py_str (PyStr s) = s"
| "py_str PyNone = ''None''"
| "py_str (PyList xs) = ''['' @ join '', '' (map py_repr xs) @ '']''"

subsection \<open>The process state\<close>

text \<open>
  \<open>builtins.print\<close> is either the interpreter's own function or the closure
  \<open>styled_print\<close> made by \<open>_create_styled_print\<close>, which is determined by the
  \<open>style_codes\<close> it captured.
\<close>

datatype printer = BuiltinPrint | StyledPrint string

text \<open>A file object: \<open>sys.stdout\<close> or another open file, named by a number.\<close>

datatype stream = SysStdout | OtherFile nat

record world =
  stdout :: string
  files :: "nat \<Rightarrow> string"
  builtins_print :: printer

text \<open>The keyword arguments of a \<open>print\<close> call. \<open>sep\<close> and \<open>end\<close> may be left out,
  passed as \<open>None\<close>, or passed as a string; for \<open>file\<close> and \<open>flush\<close>, \<open>None\<close>
  stands for a keyword that is left out or passed as \<open>None\<close>, which \<open>print\<close>
  treats alike.\<close>

datatype kwarg = Absent | IsNone | Str string

record print_kwargs =
  kw_sep :: kwarg
  kw_end :: kwarg
  kw_file :: "stream option"
  kw_flush :: "bool option"

definition no_kwargs :: print_kwargs where
  "no_kwargs = \<lparr>kw_sep = Absent, kw_end = Absent, kw_file = None, kw_flush = None\<rparr>"

text \<open>\<open>kwargs.get(key, default)\<close>: the default when the key is absent, else the
  value passed, \<open>None\<close> when that is Python's \<open>None\<close>.\<close>

fun kwargs_get :: "kwarg \<Rightarrow> string \<Rightarrow> string option" where
  "kwargs_get Absent dflt = Some dflt"
| "kwargs_get IsNone dflt = None"
| "kwargs_get (Str s) dflt = Some s"

text \<open>The interpreter's \<open>print\<close> takes its default also for \<open>sep=None\<close> and
  \<open>end=None\<close>.\<close>

fun print_default :: "kwarg \<Rightarrow> string \<Rightarrow> string" where
  "print_default (Str s) dflt = s"
| "print_default Absent dflt = dflt"
| "print_default IsNone dflt = dflt"

text \<open>\<open>AttributeError\<close> carries the attribute that is missing, \<open>TypeError\<close> the
  function that refused its argument, \<open>Raised\<close> whatever the body of a \<open>with\<close>
  block raises.\<close>

datatype exn = AttributeError string | TypeError string | Raised string

definition write_stdout :: "string \<Rightarrow> world \<Rightarrow> world" where
  "write_stdout text w = w\<lparr>stdout := stdout w @ text\<rparr>"

fun write_to :: "stream \<Rightarrow> string \<Rightarrow> world \<Rightarrow> world" where
  "write_to SysStdout text w = write_stdout text w"
| "write_to (OtherFile f) text w = w\<lparr>files := (files w)(f := files w f @ text)\<rparr>"

text \<open>The interpreter's \<open>print\<close>: the arguments converted by \<open>str\<close>, joined by
  \<open>sep\<close>, followed by \<open>end\<close>, written to \<open>file\<close> (\<open>sys.stdout\<close> when absent).\<close>

definition builtin_print :: "pyval list \<Rightarrow> print_kwargs \<Rightarrow> world \<Rightarrow> world" where
  "builtin_print args kw w =
     (let sep = print_default (kw_sep kw) '' '';
          end = print_default (kw_end kw) NL;
          text = join sep (map py_str args) @ end
      in case kw_file kw of
           None \<Rightarrow> write_stdout text w
         | Some f \<Rightarrow> write_to f text w)"

text \<open>
  \<open>styled_print\<close> of \<open>Terminal._create_styled_print\<close>: \<open>sep\<close> and \<open>end\<close> are
  read and popped from \<open>kwargs\<close>; what is left of \<open>kwargs\<close> is never used.
  With \<open>sep=None\<close> the call \<open>sep.join(strings)\<close> raises \<open>AttributeError\<close>
  before anything is written; with \<open>end=None\<close> the last
  \<open>sys.stdout.write(end)\<close> raises \<open>TypeError\<close> after the codes, the message
  and the reset have been written.
\<close>

definition styled_print ::
    "string \<Rightarrow> pyval list \<Rightarrow> print_kwargs \<Rightarrow> world \<Rightarrow> exn option \<times> world" where
  "styled_print style_codes args kw w =
     (let sep = kwargs_get (kw_sep kw) '' '';
          end = kwargs_get (kw_end kw) NL;
          strings = map py_str args
      in case sep of
           None \<Rightarrow> (Some (AttributeError ''join''), w)
         | Some sep_str \<Rightarrow>
             (let message = join sep_str strings;
                  w1 = write_stdout style_codes w;
                  w2 = write_stdout message w1;
                  w3 = write_stdout RESET w2
              in case end of
                   None \<Rightarrow> (Some (TypeError ''write''), w3)
                 | Some end_str \<Rightarrow> (None, write_stdout end_str w3)))"

text \<open>A call \<open>print(...)\<close> in any module: the name is resolved to the current
  \<open>builtins.print\<close> at the time of the call.\<close>

definition py_print :: "pyval list \<Rightarrow> print_kwargs \<Rightarrow> world \<Rightarrow> exn option \<times> world" where
  "py_print args kw w =
     (case builtins_print w of
        BuiltinPrint \<Rightarrow> (None, builtin_print args kw w)
      | StyledPrint style_codes \<Rightarrow> styled_print style_codes args kw w)"

subsection \<open>The class \<open>Terminal\<close>\<close>

text \<open>
  The attributes \<open>__init__\<close> sets that the methods read. \<open>_colors\<close>,
  \<open>_backgrounds\<close> and \<open>_styles\<close> are the same for every instance and are the
  constants below. \<open>original_stdout\<close> is the attribute \<open>_original_stdout\<close>:
  \<open>None\<close> when the instance has no such attribute.
\<close>

record terminal =
  force_color :: bool
  color_enabled :: bool
  original_stdout :: "stream option"

text \<open>A dict comprehension \<open>{m.name.lower(): m.value for m in E}\<close>: later
  members overwrite earlier ones with the same key.\<close>

definition enum_table :: "(string \<times> string) list \<Rightarrow> (string \<rightharpoonup> string)" where
  "enum_table members = foldl (\<lambda>d (name, v). d(lower name \<mapsto> v)) Map.empty members"

definition colors :: "string \<rightharpoonup> string" where
  "colors = enum_table TerminalColor"

definition backgrounds :: "string \<rightharpoonup> string" where
  "backgrounds = enum_table BackgroundColor"

definition styles_tbl :: "string \<rightharpoonup> string" where
  "styles_tbl = enum_table Style"

text \<open>\<open>Terminal.__init__\<close>, given what it reads from the environment: whether
  \<open>sys.stdout\<close> has \<open>isatty\<close>, what \<open>isatty()\<close> returns, and the value of
  \<open>NO_COLOR\<close> (\<open>None\<close> when unset; the empty string is falsy).\<close>

definition Terminal_init :: "bool \<Rightarrow> bool \<Rightarrow> bool \<Rightarrow> string option \<Rightarrow> terminal" where
  "Terminal_init force has_isatty isatty no_color =
     \<lparr>force_color = force,
      color_enabled =
        (force \<or> (has_isatty \<and> isatty \<and> \<not> (case no_color of None \<Rightarrow> False | Some v \<Rightarrow> v \<noteq> []))),
      original_stdout = None\<rparr>"

text \<open>The \<open>styles\<close> parameter, \<open>Optional[Union[str, List[str]]]\<close>.\<close>

datatype styles_arg = NoStyles | OneStyle string | StyleList "string list"

fun styles_val :: "styles_arg \<Rightarrow> pyval" where
  "styles_val NoStyles = PyNone"
| "styles_val (OneStyle s) = PyStr s"
| "styles_val (StyleList xs) = PyList xs"

fun opt_val :: "string option \<Rightarrow> pyval" where
  "opt_val None = PyNone"
| "opt_val (Some s) = PyStr s"

text \<open>
  The lookups shared, line for line, by \<open>_get_style_codes\<close> and
  \<open>_write_style_begin\<close>. Each step appends to \<open>codes\<close>; \<open>Inl\<close> carries the
  message built in the \<open>except KeyError\<close> handler that the step ran into.
\<close>

definition add_fg :: "string \<Rightarrow> string list \<Rightarrow> string + string list" where
  "add_fg fg_color codes =
     (if fg_color \<noteq> [] then
        (case colors (lower fg_color) of
           Some c \<Rightarrow> Inr (codes @ [c])
         | None \<Rightarrow> Inl (''Invalid color: '' @ fg_color))
      else Inr codes)"

definition add_bg :: "string option \<Rightarrow> string list \<Rightarrow> string + string list" where
  "add_bg bg_color codes =
     (case bg_color of
        None \<Rightarrow> Inr codes
      | Some b \<Rightarrow>
          if b \<noteq> [] then
            (case backgrounds (lower b) of
               Some c \<Rightarrow> Inr (codes @ [c])
             | None \<Rightarrow> Inl (''Invalid background color: '' @ b))
          else Inr codes)"

text \<open>\<open>style_list\<close> when \<open>styles\<close> is truthy; a falsy \<open>styles\<close> (\<open>None\<close>, the
  empty string, the empty list) skips the loop, as the loop over no element does.\<close>

fun style_list :: "styles_arg \<Rightarrow> string list" where
  "style_list NoStyles = []"
| "style_list (OneStyle s) = (if s \<noteq> [] then [s] else [])"
| "style_list (StyleList xs) = xs"

fun add_styles :: "string list \<Rightarrow> string list \<Rightarrow> string + string list" where
  "add_styles [] codes = Inr codes"
| "add_styles (style # rest) codes =
     (case styles_tbl (lower style) of
        Some c \<Rightarrow> add_styles rest (codes @ [c])
      | None \<Rightarrow> Inl (''Invalid style: '' @ style))"

definition lookup_codes :: "string \<Rightarrow> string option \<Rightarrow> styles_arg \<Rightarrow> string + string list" where
  "lookup_codes fg_color bg_color styles =
     (case add_fg fg_color [] of
        Inl msg \<Rightarrow> Inl msg
      | Inr codes1 \<Rightarrow>
          (case add_bg bg_color codes1 of
             Inl msg \<Rightarrow> Inl msg
           | Inr codes2 \<Rightarrow> add_styles (style_list styles) codes2))"

text \<open>\<open>Terminal._format_message\<close>.\<close>

definition format_message :: "string \<Rightarrow> string option \<Rightarrow> string" where
  "format_message message prefix =
     (case prefix of
        None \<Rightarrow> message
      | Some p \<Rightarrow> if p \<noteq> [] then ''['' @ p @ ''] '' @ message else message)"

text \<open>
  \<open>_get_style_codes\<close>, \<open>print_error\<close>, the decorated \<open>_print_styled\<close> and
  \<open>color_context\<close> call each other.

  \<open>print_styled\<close> is \<open>_print_styled\<close> with the wrapper of
  \<open>check_terminal_support\<close> around it. The wrapper prints \<open>*args\<close>, the positional
  arguments of the call, so the model takes \<open>npos\<close>, the number of arguments the
  caller passed by position (the others by keyword or default). Every call in
  the module passes all five by position.

  \<open>color_context\<close> takes the body of the \<open>with\<close> statement. The body returns
  \<open>Some e\<close> when it raises \<open>e\<close>; the \<open>finally\<close> clause runs in both cases and the
  exception propagates.
\<close>

function get_style_codes ::
    "terminal \<Rightarrow> string \<Rightarrow> string option \<Rightarrow> styles_arg \<Rightarrow> world \<Rightarrow> (exn + string) \<times> world"
  and print_error ::
    "terminal \<Rightarrow> string \<Rightarrow> string option \<Rightarrow> styles_arg \<Rightarrow> world \<Rightarrow> exn option \<times> world"
  and print_styled ::
    "terminal \<Rightarrow> nat \<Rightarrow> string \<Rightarrow> string option \<Rightarrow> string \<Rightarrow> string option \<Rightarrow> styles_arg
      \<Rightarrow> world \<Rightarrow> exn option \<times> world"
  and color_context ::
    "terminal \<Rightarrow> string \<Rightarrow> string option \<Rightarrow> styles_arg \<Rightarrow> (world \<Rightarrow> exn option \<times> world)
      \<Rightarrow> world \<Rightarrow> exn option \<times> world"
where
  "get_style_codes t fg_color bg_color styles w =
     (case lookup_codes fg_color bg_color styles of
        Inl msg \<Rightarrow>
          (case print_error t msg None NoStyles w of
             (Some e, w') \<Rightarrow> (Inl e, w')
           | (None, w') \<Rightarrow> (Inr [], w'))
      | Inr codes \<Rightarrow> (Inr (concat codes), w))"
| "print_error t message bg_color styles w =
     print_styled t 5 message (Some ''ERROR'') ''red'' bg_color styles w"
| "print_styled t npos message prefix fg_color bg_color styles w =
     (if \<not> color_enabled t then
        py_print
          (take npos [PyStr message, opt_val prefix, PyStr fg_color, opt_val bg_color,
                      styles_val styles])
          no_kwargs w
      else
        color_context t fg_color bg_color styles
          (py_print [PyStr (format_message message prefix)] no_kwargs) w)"
| "color_context t fg_color bg_color styles body w =
     (if \<not> color_enabled t then body w
      else
        (case get_style_codes t fg_color bg_color styles w of
           (Inl e, w1) \<Rightarrow> (Some e, w1)
         | (Inr style_codes, w1) \<Rightarrow>
             (let original_print = builtins_print w1;
                  (r, w2) = body (w1\<lparr>builtins_print := StyledPrint style_codes\<rparr>);
                  w3 = w2\<lparr>builtins_print := original_print\<rparr>;
                  w4 = write_stdout RESET w3
              in (r, w4))))"
  by pat_completeness auto
termination
proof -
  have red: "isl (lookup_codes ''red'' None NoStyles) = False"
    by (simp add: lookup_codes_def add_fg_def add_bg_def colors_def enum_table_def
        TerminalColor_def lower_def lower_char_def is_upper_def)
  show ?thesis
    apply (relation "measure (\<lambda>x. case x of
        Inl (Inl (t, fg, bg, st, w)) \<Rightarrow> (if isl (lookup_codes fg bg st) then 10 else 0)
      | Inl (Inr (t, m, bg, st, w)) \<Rightarrow> (if isl (lookup_codes ''red'' bg st) then 10 else 0) + 3
      | Inr (Inl (t, n, m, p, fg, bg, st, w)) \<Rightarrow>
          (if isl (lookup_codes fg bg st) then 10 else 0) + 2
      | Inr (Inr (t, fg, bg, st, body, w)) \<Rightarrow>
          (if isl (lookup_codes fg bg st) then 10 else 0) + 1)")
    using red by simp_all
qed

declare get_style_codes.simps [simp del]
declare print_error.simps [simp del]
declare print_styled.simps [simp del]
declare color_context.simps [simp del]

text \<open>The other public methods; each passes five positional arguments.\<close>

definition print_note ::
    "terminal \<Rightarrow> string \<Rightarrow> string option \<Rightarrow> styles_arg \<Rightarrow> world \<Rightarrow> exn option \<times> world" where
  "print_note t message bg_color styles w =
     print_styled t 5 message (Some ''NOTE'') ''green'' bg_color styles w"

definition print_warning ::
    "terminal \<Rightarrow> string \<Rightarrow> string option \<Rightarrow> styles_arg \<Rightarrow> world \<Rightarrow> exn option \<times> world" where
  "print_warning t message bg_color styles w =
     print_styled t 5 message (Some ''WARNING'') ''yellow'' bg_color styles w"

definition print_info ::
    "terminal \<Rightarrow> string \<Rightarrow> string option \<Rightarrow> styles_arg \<Rightarrow> world \<Rightarrow> exn option \<times> world" where
  "print_info t message bg_color styles w =
     print_styled t 5 message (Some ''INFO'') ''cyan'' bg_color styles w"

definition cprint ::
    "terminal \<Rightarrow> string \<Rightarrow> string \<Rightarrow> string option \<Rightarrow> styles_arg \<Rightarrow> world
      \<Rightarrow> exn option \<times> world" where
  "cprint t message fg_color bg_color styles w =
     print_styled t 5 message None fg_color bg_color styles w"

text \<open>Reading \<open>self._original_stdout\<close> raises \<open>AttributeError\<close> when the
  attribute was never set.\<close>

definition get_original_stdout :: "terminal \<Rightarrow> exn + stream" where
  "get_original_stdout t =
     (case original_stdout t of
        None \<Rightarrow> Inl (AttributeError ''_original_stdout'')
      | Some f \<Rightarrow> Inr f)"

text \<open>\<open>Terminal._write_style_begin\<close>: \<open>if codes:\<close> tests the list.\<close>

definition write_style_begin ::
    "terminal \<Rightarrow> string \<Rightarrow> string option \<Rightarrow> styles_arg \<Rightarrow> world \<Rightarrow> exn option \<times> world" where
  "write_style_begin t fg_color bg_color styles w =
     (case lookup_codes fg_color bg_color styles of
        Inl msg \<Rightarrow> print_error t msg None NoStyles w
      | Inr codes \<Rightarrow>
          if codes \<noteq> [] then
            (case get_original_stdout t of
               Inl e \<Rightarrow> (Some e, w)
             | Inr f \<Rightarrow> (None, write_to f (concat codes) w))
          else (None, w))"

text \<open>\<open>Terminal._write_style_end\<close>.\<close>

definition write_style_end :: "terminal \<Rightarrow> world \<Rightarrow> exn option \<times> world" where
  "write_style_end t w =
     (case get_original_stdout t of
        Inl e \<Rightarrow> (Some e, w)
      | Inr f \<Rightarrow> (None, write_to f RESET w))"

text \<open>The class \<open>ColoredStdout\<close>: \<open>write\<close> appends to the buffer, \<open>flush\<close>
  writes a non-empty buffer to the terminal's \<open>_original_stdout\<close>.\<close>

record colored_stdout =
  cs_terminal :: terminal
  buffer :: "string list"

definition ColoredStdout_init :: "terminal \<Rightarrow> colored_stdout" where
  "ColoredStdout_init t = \<lparr>cs_terminal = t, buffer = []\<rparr>"

definition cs_write :: "string \<Rightarrow> colored_stdout \<Rightarrow> colored_stdout" where
  "cs_write text cs = cs\<lparr>buffer := buffer cs @ [text]\<rparr>"

definition cs_flush :: "colored_stdout \<Rightarrow> world \<Rightarrow> exn option \<times> colored_stdout \<times> world" where
  "cs_flush cs w =
     (if buffer cs \<noteq> [] then
        (case get_original_stdout (cs_terminal cs) of
           Inl e \<Rightarrow> (Some e, cs, w)
         | Inr f \<Rightarrow> (None, cs\<lparr>buffer := []\<rparr>, write_to f (concat (buffer cs)) w))
      else (None, cs, w))"

subsection \<open>Vocabulary of the statements\<close>

text \<open>A fresh process: nothing written, \<open>builtins.print\<close> untouched.\<close>

definition initial_world :: world where
  "initial_world = \<lparr>stdout = [], files = (\<lambda>_. []), builtins_print = BuiltinPrint\<rparr>"

text \<open>\<open>Terminal(force_color=True)\<close>, and \<open>Terminal()\<close> in a process whose
  standard output is not a terminal.\<close>

definition forced_terminal :: terminal where
  "forced_terminal = Terminal_init True True False None"

definition piped_terminal :: terminal where
  "piped_terminal = Terminal_init False True False None"

text \<open>
  The escape-sequence table as the specification documents it, name by name:
  the standard foreground set at \<open>ESC[3x m\<close>, the bright variants at
  \<open>ESC[9x m\<close>, \<open>white\<close> at \<open>ESC[97m\<close>, the same palette for backgrounds at
  \<open>ESC[4x m\<close> and \<open>ESC[10x m\<close>, and the eight style codes, the last of them
  \<open>strikethrough\<close> at \<open>ESC[9m\<close>.
\<close>

definition documented_foreground :: "(string \<times> string) list" where
  "documented_foreground =
    [(''black'', ESC # ''[30m''),
     (''red'', ESC # ''[31m''),
     (''green'', ESC # ''[32m''),
     (''yellow'', ESC # ''[33m''),
     (''blue'', ESC # ''[34m''),
     (''magenta'', ESC # ''[35m''),
     (''cyan'', ESC # ''[36m''),
     (''light_gray'', ESC # ''[37m''),
     (''default'', ESC # ''[39m''),
     (''dark_gray'', ESC # ''[90m''),
     (''light_red'', ESC # ''[91m''),
     (''light_green'', ESC # ''[92m''),
     (''light_yellow'', ESC # ''[93m''),
     (''light_blue'', ESC # ''[94m''),
     (''light_magenta'', ESC # ''[95m''),
     (''light_cyan'', ESC # ''[96m''),
     (''white'', ESC # ''[97m'')]"

definition documented_background :: "(string \<times> string) list" where
  "documented_background =
    [(''black'', ESC # ''[40m''),
     (''red'', ESC # ''[41m''),
     (''green'', ESC # ''[42m''),
     (''yellow'', ESC # ''[43m''),
     (''blue'', ESC # ''[44m''),
     (''magenta'', ESC # ''[45m''),
     (''cyan'', ESC # ''[46m''),
     (''light_gray'', ESC # ''[47m''),
     (''default'', ESC # ''[49m''),
     (''dark_gray'', ESC # ''[100m''),
     (''light_red'', ESC # ''[101m''),
     (''light_green'', ESC # ''[102m''),
     (''light_yellow'', ESC # ''[103m''),
     (''light_blue'', ESC # ''[104m''),
     (''light_magenta'', ESC # ''[105m''),
     (''light_cyan'', ESC # ''[106m''),
     (''white'', ESC # ''[107m'')]"

definition documented_styles :: "(string \<times> string) list" where
  "documented_styles =
    [(''bold'', ESC # ''[1m''),
     (''dim'', ESC # ''[2m''),
     (''italic'', ESC # ''[3m''),
     (''underline'', ESC # ''[4m''),
     (''blink'', ESC # ''[5m''),
     (''reverse'', ESC # ''[7m''),
     (''hidden'', ESC # ''[8m''),
     (''strikethrough'', ESC # ''[9m'')]"

text \<open>
  The names the module accepts, with their sequences: the documented foreground
  table and the name \<open>reset\<close> at \<open>ESC[0m\<close>, the documented background table, and
  the documented styles with \<open>strike\<close> in the place of \<open>strikethrough\<close>.
\<close>

definition accepted_foreground :: "(string \<times> string) list" where
  "accepted_foreground = documented_foreground @ [(''reset'', ESC # ''[0m'')]"

definition accepted_background :: "(string \<times> string) list" where
  "accepted_background = documented_background"

definition accepted_styles :: "(string \<times> string) list" where
  "accepted_styles =
    [(''bold'', ESC # ''[1m''),
     (''dim'', ESC # ''[2m''),
     (''italic'', ESC # ''[3m''),
     (''underline'', ESC # ''[4m''),
     (''blink'', ESC # ''[5m''),
     (''reverse'', ESC # ''[7m''),
     (''hidden'', ESC # ''[8m''),
     (''strike'', ESC # ''[9m'')]"

text \<open>
  \<open>names_unknown fg bg st msg\<close>: the request names an identifier that is looked
  up and is absent from its table, and \<open>msg\<close> is the notice text naming it. A
  name is looked up when it is truthy: a non-empty foreground name, a
  background name that is given and non-empty, and every element of the style
  list.
\<close>

definition names_unknown :: "string \<Rightarrow> string option \<Rightarrow> styles_arg \<Rightarrow> string \<Rightarrow> bool" where
  "names_unknown fg bg st msg \<longleftrightarrow>
     (fg \<noteq> [] \<and> colors (lower fg) = None \<and> msg = ''Invalid color: '' @ fg)
   \<or> (\<exists>b. bg = Some b \<and> b \<noteq> [] \<and> backgrounds (lower b) = None
          \<and> msg = ''Invalid background color: '' @ b)
   \<or> (\<exists>s \<in> set (style_list st). styles_tbl (lower s) = None \<and> msg = ''Invalid style: '' @ s)"

text \<open>
  \<open>first_unknown fg bg st\<close>: the notice for the first name that is looked up and
  absent, in the order foreground, background, styles as given; \<open>None\<close> when
  every name that is looked up is in its table.
\<close>

definition first_unknown :: "string \<Rightarrow> string option \<Rightarrow> styles_arg \<Rightarrow> string option" where
  "first_unknown fg bg st =
     (if fg \<noteq> [] \<and> colors (lower fg) = None then Some (''Invalid color: '' @ fg)
      else if (case bg of None \<Rightarrow> False | Some b \<Rightarrow> b \<noteq> [] \<and> backgrounds (lower b) = None)
        then map_option (\<lambda>b. ''Invalid background color: '' @ b) bg
      else map_option (\<lambda>s. ''Invalid style: '' @ s)
             (find (\<lambda>s. styles_tbl (lower s) = None) (style_list st)))"

text \<open>Two statements in sequence: the second does not run when the first raises.\<close>

definition then_do ::
    "(world \<Rightarrow> exn option \<times> world) \<Rightarrow> (world \<Rightarrow> exn option \<times> world) \<Rightarrow> world
      \<Rightarrow> exn option \<times> world" where
  "then_do first second w =
     (case first w of
        (Some e, w') \<Rightarrow> (Some e, w')
      | (None, w') \<Rightarrow> second w')"

text \<open>A value whose text carries no escape byte when printed: a string without
  \<open>ESC\<close>, \<open>None\<close>, or a list (whose elements are shown escaped).\<close>

fun plain :: "pyval \<Rightarrow> bool" where
  "plain (PyStr s) = (ESC \<notin> set s)"
| "plain PyNone = True"
| "plain (PyList xs) = True"

text \<open>\<open>writes_plain w args res\<close>: the call that started in \<open>w\<close> returned normally,
  did nothing but append some text to standard output, and that text holds no
  escape byte unless one of the caller's arguments \<open>args\<close> brought it.\<close>

definition writes_plain :: "world \<Rightarrow> pyval list \<Rightarrow> exn option \<times> world \<Rightarrow> bool" where
  "writes_plain w args res \<longleftrightarrow>
     (\<exists>out. res = (None, w\<lparr>stdout := stdout w @ out\<rparr>) \<and>
            (list_all plain args \<longrightarrow> ESC \<notin> set out))"

section \<open>Properties\<close>

subsection \<open>Writing to standard output\<close>

lemma builtins_print_write_stdout [simp]: "builtins_print (write_stdout s w) = builtins_print w"
  by (simp add: write_stdout_def)

lemma stdout_write_stdout [simp]: "stdout (write_stdout s w) = stdout w @ s"
  by (simp add: write_stdout_def)

lemma files_write_stdout [simp]: "files (write_stdout s w) = files w"
  by (simp add: write_stdout_def)

lemma write_stdout_twice: "write_stdout b (write_stdout a w) = write_stdout (a @ b) w"
  by (simp add: write_stdout_def)

lemma write_stdout_printer:
  "write_stdout s (w\<lparr>builtins_print := p\<rparr>) = (write_stdout s w)\<lparr>builtins_print := p\<rparr>"
  by (simp add: write_stdout_def)

lemma restore_printer [simp]:
  "(write_stdout s (w\<lparr>builtins_print := p\<rparr>))\<lparr>builtins_print := builtins_print w\<rparr> = write_stdout s w"
  by (simp add: write_stdout_def)

lemma styled_print_eq:
  "kwargs_get (kw_sep kw) '' '' = Some sep \<Longrightarrow> kwargs_get (kw_end kw) NL = Some e \<Longrightarrow>
   styled_print c args kw w =
     (None, write_stdout (c @ join sep (map py_str args) @ RESET @ e) w)"
  by (simp add: styled_print_def Let_def write_stdout_twice)

lemma styled_print_no_kwargs:
  "styled_print c args no_kwargs w =
     (None, write_stdout (c @ join '' '' (map py_str args) @ RESET @ NL) w)"
  by (rule styled_print_eq) (simp_all add: no_kwargs_def)

lemma py_print_styled:
  "py_print [PyStr m] no_kwargs (w\<lparr>builtins_print := StyledPrint c\<rparr>) =
     (None, (write_stdout (c @ m @ RESET @ NL) w)\<lparr>builtins_print := StyledPrint c\<rparr>)"
  by (simp add: py_print_def styled_print_no_kwargs write_stdout_def)

subsection \<open>The four mutually recursive methods in closed form\<close>

lemma print_styled_off:
  "\<not> color_enabled t \<Longrightarrow>
   print_styled t npos message prefix fg bg st w =
     py_print (take npos [PyStr message, opt_val prefix, PyStr fg, opt_val bg, styles_val st])
       no_kwargs w"
  by (simp add: print_styled.simps)

lemma color_context_off: "\<not> color_enabled t \<Longrightarrow> color_context t fg bg st body w = body w"
  by (simp add: color_context.simps)

lemma get_style_codes_ok:
  "lookup_codes fg bg st = Inr codes \<Longrightarrow> get_style_codes t fg bg st w = (Inr (concat codes), w)"
  by (simp add: get_style_codes.simps)

lemma color_context_ok:
  "color_enabled t \<Longrightarrow> lookup_codes fg bg st = Inr codes \<Longrightarrow>
   color_context t fg bg st body w =
     (case body (w\<lparr>builtins_print := StyledPrint (concat codes)\<rparr>) of
        (r, w2) \<Rightarrow> (r, write_stdout RESET (w2\<lparr>builtins_print := builtins_print w\<rparr>)))"
  by (simp add: color_context.simps get_style_codes_ok Let_def)

lemma print_styled_ok:
  "color_enabled t \<Longrightarrow> lookup_codes fg bg st = Inr codes \<Longrightarrow>
   print_styled t npos message prefix fg bg st w =
     (None, write_stdout (concat codes @ format_message message prefix @ RESET @ NL @ RESET) w)"
  by (simp add: print_styled.simps color_context_ok py_print_styled write_stdout_twice)

lemma lookup_red: "lookup_codes ''red'' None NoStyles = Inr [sgr ''31'']"
  by (simp add: lookup_codes_def add_fg_def add_bg_def colors_def enum_table_def
      TerminalColor_def lower_def lower_char_def is_upper_def)

lemma print_error_on:
  "color_enabled t \<Longrightarrow>
   print_error t msg None NoStyles w =
     (None, write_stdout (sgr ''31'' @ ''[ERROR] '' @ msg @ RESET @ NL @ RESET) w)"
  by (simp add: print_error.simps print_styled_ok [OF _ lookup_red] format_message_def)

lemma get_style_codes_bad:
  "color_enabled t \<Longrightarrow> lookup_codes fg bg st = Inl msg \<Longrightarrow>
   get_style_codes t fg bg st w =
     (Inr [], write_stdout (sgr ''31'' @ ''[ERROR] '' @ msg @ RESET @ NL @ RESET) w)"
  by (simp add: get_style_codes.simps print_error_on)

lemma color_context_bad:
  "color_enabled t \<Longrightarrow> lookup_codes fg bg st = Inl msg \<Longrightarrow>
   color_context t fg bg st body w =
     (case body ((write_stdout (sgr ''31'' @ ''[ERROR] '' @ msg @ RESET @ NL @ RESET) w)
                   \<lparr>builtins_print := StyledPrint []\<rparr>) of
        (r, w2) \<Rightarrow> (r, write_stdout RESET (w2\<lparr>builtins_print := builtins_print w\<rparr>)))"
  by (simp add: color_context.simps get_style_codes_bad Let_def)

lemma print_styled_bad:
  "color_enabled t \<Longrightarrow> lookup_codes fg bg st = Inl msg \<Longrightarrow>
   print_styled t npos message prefix fg bg st w =
     (None, write_stdout (sgr ''31'' @ ''[ERROR] '' @ msg @ RESET @ NL @ RESET
                          @ format_message message prefix @ RESET @ NL @ RESET) w)"
  by (simp add: print_styled.simps color_context_bad py_print_styled write_stdout_twice)

subsection \<open>The tables\<close>

lemmas table_defs = enum_table_def lower_def lower_char_def is_upper_def sgr_def

lemma colors_unfold:
  "colors =
     [''black'' \<mapsto> ESC # ''[30m'',
      ''red'' \<mapsto> ESC # ''[31m'',
      ''green'' \<mapsto> ESC # ''[32m'',
      ''yellow'' \<mapsto> ESC # ''[33m'',
      ''blue'' \<mapsto> ESC # ''[34m'',
      ''magenta'' \<mapsto> ESC # ''[35m'',
      ''cyan'' \<mapsto> ESC # ''[36m'',
      ''light_gray'' \<mapsto> ESC # ''[37m'',
      ''default'' \<mapsto> ESC # ''[39m'',
      ''dark_gray'' \<mapsto> ESC # ''[90m'',
      ''light_red'' \<mapsto> ESC # ''[91m'',
      ''light_green'' \<mapsto> ESC # ''[92m'',
      ''light_yellow'' \<mapsto> ESC # ''[93m'',
      ''light_blue'' \<mapsto> ESC # ''[94m'',
      ''light_magenta'' \<mapsto> ESC # ''[95m'',
      ''light_cyan'' \<mapsto> ESC # ''[96m'',
      ''white'' \<mapsto> ESC # ''[97m'',
      ''reset'' \<mapsto> ESC # ''[0m'']"
  by (simp add: colors_def TerminalColor_def table_defs)

lemma backgrounds_unfold:
  "backgrounds =
     [''black'' \<mapsto> ESC # ''[40m'',
      ''red'' \<mapsto> ESC # ''[41m'',
      ''green'' \<mapsto> ESC # ''[42m'',
      ''yellow'' \<mapsto> ESC # ''[43m'',
      ''blue'' \<mapsto> ESC # ''[44m'',
      ''magenta'' \<mapsto> ESC # ''[45m'',
      ''cyan'' \<mapsto> ESC # ''[46m'',
      ''light_gray'' \<mapsto> ESC # ''[47m'',
      ''default'' \<mapsto> ESC # ''[49m'',
      ''dark_gray'' \<mapsto> ESC # ''[100m'',
      ''light_red'' \<mapsto> ESC # ''[101m'',
      ''light_green'' \<mapsto> ESC # ''[102m'',
      ''light_yellow'' \<mapsto> ESC # ''[103m'',
      ''light_blue'' \<mapsto> ESC # ''[104m'',
      ''light_magenta'' \<mapsto> ESC # ''[105m'',
      ''light_cyan'' \<mapsto> ESC # ''[106m'',
      ''white'' \<mapsto> ESC # ''[107m'']"
  by (simp add: backgrounds_def BackgroundColor_def table_defs)

lemma styles_unfold:
  "styles_tbl =
     [''bold'' \<mapsto> ESC # ''[1m'',
      ''dim'' \<mapsto> ESC # ''[2m'',
      ''italic'' \<mapsto> ESC # ''[3m'',
      ''underline'' \<mapsto> ESC # ''[4m'',
      ''blink'' \<mapsto> ESC # ''[5m'',
      ''reverse'' \<mapsto> ESC # ''[7m'',
      ''hidden'' \<mapsto> ESC # ''[8m'',
      ''strike'' \<mapsto> ESC # ''[9m'']"
  by (simp add: styles_tbl_def Style_def table_defs)

lemma colors_accepted_all:
  "\<forall>(n, c) \<in> set accepted_foreground. colors n = Some c \<and> n \<noteq> []"
  by (simp add: accepted_foreground_def documented_foreground_def colors_unfold)

lemma backgrounds_accepted_all:
  "\<forall>(n, c) \<in> set accepted_background. backgrounds n = Some c \<and> n \<noteq> []"
  by (simp add: accepted_background_def documented_background_def backgrounds_unfold)

lemma styles_accepted_all:
  "\<forall>(n, c) \<in> set accepted_styles. styles_tbl n = Some c \<and> n \<noteq> []"
  by (simp add: accepted_styles_def styles_unfold)

lemma colors_accepted:
  "(n, c) \<in> set accepted_foreground \<Longrightarrow> colors n = Some c \<and> n \<noteq> []"
  using colors_accepted_all by blast

lemma backgrounds_accepted:
  "(n, c) \<in> set accepted_background \<Longrightarrow> backgrounds n = Some c \<and> n \<noteq> []"
  using backgrounds_accepted_all by blast

lemma styles_accepted:
  "(n, c) \<in> set accepted_styles \<Longrightarrow> styles_tbl n = Some c \<and> n \<noteq> []"
  using styles_accepted_all by blast

lemma colors_map_of: "colors = map_of (rev accepted_foreground)"
  by (simp add: accepted_foreground_def documented_foreground_def colors_unfold)

lemma backgrounds_map_of: "backgrounds = map_of (rev accepted_background)"
  by (simp add: accepted_background_def documented_background_def backgrounds_unfold)

lemma styles_map_of: "styles_tbl = map_of (rev accepted_styles)"
  by (simp add: accepted_styles_def styles_unfold)

lemma colors_only_accepted: "colors k = Some v \<Longrightarrow> (k, v) \<in> set accepted_foreground"
  unfolding colors_map_of by (drule map_of_SomeD) simp

lemma backgrounds_only_accepted:
  "backgrounds k = Some v \<Longrightarrow> (k, v) \<in> set accepted_background"
  unfolding backgrounds_map_of by (drule map_of_SomeD) simp

lemma styles_only_accepted: "styles_tbl k = Some v \<Longrightarrow> (k, v) \<in> set accepted_styles"
  unfolding styles_map_of by (drule map_of_SomeD) simp

lemma lower_char_letters:
  "map lower_char upper_letters = lower_letters"
  "map lower_char lower_letters = lower_letters"
  "map lower_char ''0123456789_ -[]'' = ''0123456789_ -[]''"
  by (simp_all add: upper_letters_def lower_letters_def lower_char_def is_upper_def)

lemma lower_Nil [simp]: "lower s = [] \<longleftrightarrow> s = []"
  by (simp add: lower_def)

lemma add_styles_all:
  "list_all2 (\<lambda>s c. styles_tbl (lower s) = Some c) ss cs \<Longrightarrow>
   add_styles ss acc = Inr (acc @ cs)"
  by (induction ss cs arbitrary: acc rule: list_all2_induct) simp_all

subsection \<open>Concrete calls\<close>

lemma color_enabled_forced [simp]: "color_enabled forced_terminal"
  by (simp add: forced_terminal_def Terminal_init_def)

lemma color_enabled_piped [simp]: "\<not> color_enabled piped_terminal"
  by (simp add: piped_terminal_def Terminal_init_def)

lemma lookup_green: "lookup_codes ''green'' None NoStyles = Inr [sgr ''32'']"
  by (simp add: lookup_codes_def add_fg_def add_bg_def colors_unfold sgr_def lower_def
      lower_char_def is_upper_def)

lemma lookup_chartreuse:
  "lookup_codes ''chartreuse'' None NoStyles = Inl ''Invalid color: chartreuse''"
  by (simp add: lookup_codes_def add_fg_def colors_unfold lower_def lower_char_def is_upper_def)

text \<open>
  Claim C1. With color support off, every print operation should write the plain
  formatted message, \<open>[PREFIX] message\<close>, and a newline. The wrapper of
  \<open>check_terminal_support\<close> prints the positional arguments of \<open>_print_styled\<close>
  instead: \<open>print_note("Build ok")\<close> on a terminal without color writes
  \<open>Build ok NOTE green None None\<close>, not \<open>[NOTE] Build ok\<close>.
\<close>

theorem print_note_plain_diverges:
  "print_note piped_terminal ''Build ok'' None NoStyles initial_world =
     (None, initial_world\<lparr>stdout := ''Build ok NOTE green None None'' @ [CHR 0x0A]\<rparr>)
   \<and> stdout (snd (print_note piped_terminal ''Build ok'' None NoStyles initial_world))
       \<noteq> ''[NOTE] Build ok'' @ [CHR 0x0A]"
  by (simp add: print_note_def print_styled_off py_print_def builtin_print_def no_kwargs_def
      initial_world_def write_stdout_def NL_def)

text \<open>
  Claim C2, as stated: the styled print of \<open>Build ok\<close> with prefix \<open>NOTE\<close> in
  green ends with the newline. It does not: the output differs from
  \<open>ESC[32m[NOTE] Build ok ESC[0m\n\<close> and its last byte is not the newline.
\<close>

theorem styled_note_newline_last_counterexample:
  "stdout (snd (print_styled forced_terminal 1 ''Build ok'' (Some ''NOTE'') ''green'' None NoStyles
                  initial_world))
     \<noteq> ESC # ''[32m[NOTE] Build ok'' @ ESC # ''[0m'' @ [CHR 0x0A]
   \<and> last (stdout (snd (print_styled forced_terminal 1 ''Build ok'' (Some ''NOTE'') ''green'' None
                         NoStyles initial_world))) \<noteq> CHR 0x0A"
  by (simp add: print_styled_ok [OF _ lookup_green] format_message_def initial_world_def
      sgr_def RESET_def NL_def ESC_def)

text \<open>
  Claim C2, amended. With color enabled, the styled print of \<open>Build ok\<close> with
  prefix \<open>NOTE\<close> and foreground \<open>green\<close> appends to standard output exactly
  \<open>ESC[32m\<close>, \<open>[NOTE] Build ok\<close>, the reset \<open>ESC[0m\<close>, the newline, and a second
  reset \<open>ESC[0m\<close> written when the scoped context exits; it raises nothing and
  leaves everything else as it was, whatever \<open>builtins.print\<close> is at the call.
\<close>

theorem styled_note_bytes:
  "color_enabled t \<Longrightarrow>
   print_styled t npos ''Build ok'' (Some ''NOTE'') ''green'' None NoStyles w =
     (None, w\<lparr>stdout := stdout w @ ESC # ''[32m[NOTE] Build ok'' @ ESC # ''[0m''
                            @ CHR 0x0A # ESC # ''[0m''\<rparr>)"
  by (simp add: print_styled_ok [OF _ lookup_green] format_message_def
      sgr_def RESET_def NL_def write_stdout_def)

theorem styled_note_bytes_witness:
  "color_enabled forced_terminal \<and>
   print_styled forced_terminal 5 ''Build ok'' (Some ''NOTE'') ''green'' None NoStyles initial_world =
     (None, initial_world\<lparr>stdout := ESC # ''[32m[NOTE] Build ok'' @ ESC # ''[0m''
                            @ CHR 0x0A # ESC # ''[0m''\<rparr>)"
  using styled_note_bytes [of forced_terminal 5 initial_world]
  by (simp add: initial_world_def)

text \<open>
  Claim C3, as stated: a print call with an unknown name prints an error notice
  and not its own message. \<open>cprint("hello", "chartreuse")\<close> with color enabled
  writes the notice and then \<open>hello\<close>, so the output is not the notice alone.
\<close>

theorem unknown_name_message_not_printed_counterexample:
  "stdout (snd (cprint forced_terminal ''hello'' ''chartreuse'' None NoStyles initial_world)) =
     ESC # ''[31m[ERROR] Invalid color: chartreuse'' @ ESC # ''[0m'' @ CHR 0x0A # ESC # ''[0m''
       @ ''hello'' @ ESC # ''[0m'' @ CHR 0x0A # ESC # ''[0m''
   \<and> stdout (snd (cprint forced_terminal ''hello'' ''chartreuse'' None NoStyles initial_world)) \<noteq>
     ESC # ''[31m[ERROR] Invalid color: chartreuse'' @ ESC # ''[0m'' @ CHR 0x0A # ESC # ''[0m''"
  by (simp add: cprint_def print_styled_bad [OF _ lookup_chartreuse] format_message_def
      initial_world_def sgr_def RESET_def NL_def)

text \<open>
  Claim C9. On every instance that \<open>__init__\<close> constructs, \<open>_write_style_end\<close>
  raises \<open>AttributeError\<close> for \<open>_original_stdout\<close> and writes nothing; so does
  \<open>_write_style_begin\<close> for every request that resolves to at least one code, and
  \<open>ColoredStdout.flush\<close> with a non-empty buffer.
\<close>

theorem original_stdout_missing:
  "write_style_end (Terminal_init force has_isatty isatty no_color) w =
     (Some (AttributeError ''_original_stdout''), w)
   \<and> (\<forall>codes. lookup_codes fg bg st = Inr codes \<and> codes \<noteq> [] \<longrightarrow>
         write_style_begin (Terminal_init force has_isatty isatty no_color) fg bg st w =
           (Some (AttributeError ''_original_stdout''), w))
   \<and> (buffer cs \<noteq> [] \<and> cs_terminal cs = Terminal_init force has_isatty isatty no_color \<longrightarrow>
         cs_flush cs w = (Some (AttributeError ''_original_stdout''), cs, w))"
  by (simp add: write_style_end_def write_style_begin_def cs_flush_def get_original_stdout_def
      Terminal_init_def)

theorem original_stdout_missing_witness:
  "write_style_end (Terminal_init True True False None) initial_world =
     (Some (AttributeError ''_original_stdout''), initial_world)
   \<and> write_style_begin (Terminal_init True True False None) ''green'' None NoStyles initial_world =
       (Some (AttributeError ''_original_stdout''), initial_world)
   \<and> cs_flush (cs_write ''x'' (ColoredStdout_init (Terminal_init True True False None))) initial_world =
       (Some (AttributeError ''_original_stdout''),
        cs_write ''x'' (ColoredStdout_init (Terminal_init True True False None)), initial_world)"
  using original_stdout_missing [of True True False None initial_world "''green''" None NoStyles
      "cs_write ''x'' (ColoredStdout_init (Terminal_init True True False None))"]
  by (simp add: lookup_green cs_write_def ColoredStdout_init_def)

subsection \<open>Unknown names\<close>

lemma add_styles_Inl:
  "add_styles ss acc = Inl msg \<Longrightarrow>
   \<exists>s \<in> set ss. styles_tbl (lower s) = None \<and> msg = ''Invalid style: '' @ s"
  by (induction ss arbitrary: acc) (auto split: option.splits)

lemma add_styles_unknown:
  "\<exists>s \<in> set ss. styles_tbl (lower s) = None \<Longrightarrow> \<exists>msg. add_styles ss acc = Inl msg"
  by (induction ss arbitrary: acc) (auto split: option.splits)

lemma lookup_Inl_names:
  "lookup_codes fg bg st = Inl msg \<Longrightarrow> names_unknown fg bg st msg"
  unfolding lookup_codes_def add_fg_def add_bg_def names_unknown_def
  by (auto split: sum.splits option.splits if_splits dest: add_styles_Inl)

lemma names_lookup_Inl:
  assumes "names_unknown fg bg st m"
  shows "\<exists>msg. lookup_codes fg bg st = Inl msg"
proof (cases "add_fg fg []")
  case (Inl a)
  then show ?thesis by (simp add: lookup_codes_def)
next
  case fg_ok: (Inr c1)
  show ?thesis
  proof (cases "add_bg bg c1")
    case (Inl a)
    with fg_ok show ?thesis by (simp add: lookup_codes_def)
  next
    case bg_ok: (Inr c2)
    from fg_ok have "\<not> (fg \<noteq> [] \<and> colors (lower fg) = None)"
      by (auto simp: add_fg_def split: if_splits option.splits)
    moreover from bg_ok have "\<not> (\<exists>b. bg = Some b \<and> b \<noteq> [] \<and> backgrounds (lower b) = None)"
      by (auto simp: add_bg_def split: if_splits option.splits)
    ultimately have "\<exists>s \<in> set (style_list st). styles_tbl (lower s) = None"
      using assms unfolding names_unknown_def by blast
    then obtain msg where "add_styles (style_list st) c2 = Inl msg"
      using add_styles_unknown by blast
    with fg_ok bg_ok show ?thesis by (simp add: lookup_codes_def)
  qed
qed

lemma print_error_off:
  "\<not> color_enabled t \<Longrightarrow>
   \<exists>pre post. print_error t msg None NoStyles w = (None, write_stdout (pre @ msg @ post) w)"
proof (cases "builtins_print w")
  case BuiltinPrint
  assume "\<not> color_enabled t"
  then have "print_error t msg None NoStyles w =
      (None, write_stdout ([] @ msg @ ('' ERROR red None None'' @ NL)) w)"
    using BuiltinPrint
    by (simp add: print_error.simps print_styled_off py_print_def builtin_print_def no_kwargs_def)
  then show ?thesis by blast
next
  case (StyledPrint c)
  assume "\<not> color_enabled t"
  then have "print_error t msg None NoStyles w =
      (None, write_stdout (c @ msg @ ('' ERROR red None None'' @ RESET @ NL)) w)"
    using StyledPrint
    by (simp add: print_error.simps print_styled_off py_print_def styled_print_no_kwargs)
  then show ?thesis by blast
qed

lemma print_error_notice:
  "\<exists>pre post. print_error t msg None NoStyles w = (None, write_stdout (pre @ msg @ post) w)"
proof (cases "color_enabled t")
  case True
  then have "print_error t msg None NoStyles w =
      (None, write_stdout ((sgr ''31'' @ ''[ERROR] '') @ msg @ (RESET @ NL @ RESET)) w)"
    by (simp add: print_error_on)
  then show ?thesis by blast
next
  case False
  then show ?thesis by (rule print_error_off)
qed

lemma add_styles_first:
  "add_styles ss acc = Inl m \<longleftrightarrow>
   map_option (\<lambda>s. ''Invalid style: '' @ s) (find (\<lambda>s. styles_tbl (lower s) = None) ss) = Some m"
  by (induction ss arbitrary: acc) (auto split: option.splits)

lemma lookup_first:
  "lookup_codes fg bg st = Inl m \<longleftrightarrow> first_unknown fg bg st = Some m"
proof (cases "fg \<noteq> [] \<and> colors (lower fg) = None")
  case True
  then show ?thesis
    by (auto simp: lookup_codes_def add_fg_def first_unknown_def)
next
  case fg_ok: False
  then have "\<exists>c1. add_fg fg [] = Inr c1"
    by (cases "colors (lower fg)") (auto simp: add_fg_def)
  then obtain c1 where c1: "add_fg fg [] = Inr c1" ..
  show ?thesis
  proof (cases "case bg of None \<Rightarrow> False | Some b \<Rightarrow> b \<noteq> [] \<and> backgrounds (lower b) = None")
    case True
    then obtain b where b: "bg = Some b" "b \<noteq> []" "backgrounds (lower b) = None"
      by (auto split: option.splits)
    then have "add_bg bg c1 = Inl (''Invalid background color: '' @ b)"
      by (simp add: add_bg_def)
    with c1 b fg_ok show ?thesis
      by (auto simp: lookup_codes_def first_unknown_def)
  next
    case bg_ok: False
    then have "\<exists>c2. add_bg bg c1 = Inr c2"
      by (cases bg; cases "backgrounds (lower (the bg))") (auto simp: add_bg_def)
    then obtain c2 where c2: "add_bg bg c1 = Inr c2" ..
    from fg_ok bg_ok have "first_unknown fg bg st =
        map_option (\<lambda>s. ''Invalid style: '' @ s)
          (find (\<lambda>s. styles_tbl (lower s) = None) (style_list st))"
      unfolding first_unknown_def by (simp only: if_False)
    moreover from c1 c2 have "lookup_codes fg bg st = add_styles (style_list st) c2"
      by (simp add: lookup_codes_def)
    ultimately show ?thesis
      by (simp add: add_styles_first)
  qed
qed

lemma names_first_unknown:
  assumes "\<exists>m. names_unknown fg bg st m"
  shows "\<exists>msg. first_unknown fg bg st = Some msg \<and> names_unknown fg bg st msg
               \<and> lookup_codes fg bg st = Inl msg"
proof -
  from assms obtain msg where l: "lookup_codes fg bg st = Inl msg"
    using names_lookup_Inl by blast
  then show ?thesis
    using lookup_first lookup_Inl_names by blast
qed


lemma first_unknown_green_chartreuse:
  "first_unknown ''green'' (Some ''chartreuse'') (StyleList [''bold'', ''nope'']) =
     Some ''Invalid background color: chartreuse''"
  by (simp add: first_unknown_def colors_unfold backgrounds_unfold lower_def lower_char_def is_upper_def)


text \<open>
  Claim C3, amended. With color enabled, a print call that names an unknown
  identifier raises nothing: it writes an error notice naming the first unknown
  identifier (in the order foreground, background, styles), styled in the error
  color (\<open>ESC[31m\<close>, \<open>[ERROR] \<close>, the notice, reset, newline, reset), and then
  still writes its own formatted message, with no style code in front of it,
  followed by reset, newline and reset.
\<close>

theorem unknown_name_notice_then_message:
  assumes "color_enabled t" and "\<exists>m. names_unknown fg bg st m"
  shows "\<exists>msg.
           first_unknown fg bg st = Some msg \<and> names_unknown fg bg st msg \<and>
           print_styled t npos message prefix fg bg st w =
             (None, w\<lparr>stdout := stdout w
                       @ ESC # ''[31m[ERROR] '' @ msg @ ESC # ''[0m'' @ CHR 0x0A # ESC # ''[0m''
                       @ format_message message prefix @ ESC # ''[0m'' @ CHR 0x0A # ESC # ''[0m''\<rparr>)"
proof -
  from names_first_unknown [OF assms(2)] obtain msg where
    f: "first_unknown fg bg st = Some msg" and n: "names_unknown fg bg st msg"
    and l: "lookup_codes fg bg st = Inl msg"
    by blast
  have "print_styled t npos message prefix fg bg st w =
          (None, write_stdout (sgr ''31'' @ ''[ERROR] '' @ msg @ RESET @ NL @ RESET
                               @ format_message message prefix @ RESET @ NL @ RESET) w)"
    by (rule print_styled_bad [OF assms(1) l])
  then have "print_styled t npos message prefix fg bg st w =
             (None, w\<lparr>stdout := stdout w
                       @ ESC # ''[31m[ERROR] '' @ msg @ ESC # ''[0m'' @ CHR 0x0A # ESC # ''[0m''
                       @ format_message message prefix @ ESC # ''[0m'' @ CHR 0x0A # ESC # ''[0m''\<rparr>)"
    by (simp add: write_stdout_def sgr_def RESET_def NL_def)
  with f n show ?thesis by blast
qed

lemma first_unknown_zzz_yyy:
  "first_unknown ''zzz'' (Some ''yyy'') (OneStyle ''xxx'') = Some ''Invalid color: zzz''"
  by (simp add: first_unknown_def colors_unfold lower_def lower_char_def is_upper_def)

theorem unknown_name_notice_then_message_witness:
  "print_styled forced_terminal 5 ''hello'' (Some ''TAG'') ''zzz'' (Some ''yyy'') (OneStyle ''xxx'')
     initial_world =
     (None, initial_world\<lparr>stdout :=
        ESC # ''[31m[ERROR] Invalid color: zzz'' @ ESC # ''[0m'' @ CHR 0x0A # ESC # ''[0m''
        @ ''[TAG] hello'' @ ESC # ''[0m'' @ CHR 0x0A # ESC # ''[0m''\<rparr>)"
proof -
  have u: "\<exists>m. names_unknown ''zzz'' (Some ''yyy'') (OneStyle ''xxx'') m"
    using lookup_Inl_names lookup_first first_unknown_zzz_yyy by blast
  from unknown_name_notice_then_message [OF color_enabled_forced u,
      of 5 "''hello''" "Some ''TAG''" initial_world]
  obtain msg where
    "first_unknown ''zzz'' (Some ''yyy'') (OneStyle ''xxx'') = Some msg"
    and "print_styled forced_terminal 5 ''hello'' (Some ''TAG'') ''zzz'' (Some ''yyy'')
           (OneStyle ''xxx'') initial_world =
         (None, initial_world\<lparr>stdout := stdout initial_world
            @ ESC # ''[31m[ERROR] '' @ msg @ ESC # ''[0m'' @ CHR 0x0A # ESC # ''[0m''
            @ format_message ''hello'' (Some ''TAG'') @ ESC # ''[0m'' @ CHR 0x0A # ESC # ''[0m''\<rparr>)"
    by blast
  then show ?thesis
    by (simp add: first_unknown_zzz_yyy format_message_def initial_world_def)
qed

text \<open>
  Claim C4, as stated: every documented style name resolves to its documented
  sequence. The documented name \<open>strikethrough\<close> does not: the request is
  answered with the notice \<open>Invalid style: strikethrough\<close> and the empty string,
  not with \<open>ESC[9m\<close>.
\<close>

theorem documented_strikethrough_counterexample:
  "(''strikethrough'', ESC # ''[9m'') \<in> set documented_styles
   \<and> get_style_codes forced_terminal ''green'' None (OneStyle ''strikethrough'') initial_world =
       (Inr [], initial_world\<lparr>stdout := ESC # ''[31m[ERROR] Invalid style: strikethrough''
                                @ ESC # ''[0m'' @ CHR 0x0A # ESC # ''[0m''\<rparr>)
   \<and> get_style_codes forced_terminal ''green'' None (OneStyle ''strikethrough'') initial_world \<noteq>
       (Inr (ESC # ''[32m'' @ ESC # ''[9m''), initial_world)"
proof -
  have l: "lookup_codes ''green'' None (OneStyle ''strikethrough'') =
             Inl ''Invalid style: strikethrough''"
    by (simp add: lookup_codes_def add_fg_def add_bg_def colors_unfold styles_unfold lower_def
        lower_char_def is_upper_def)
  show ?thesis
    by (simp add: get_style_codes_bad [OF color_enabled_forced l] documented_styles_def
        write_stdout_def initial_world_def sgr_def RESET_def NL_def)
qed

text \<open>
  Claim C4, amended. The names the module accepts are the documented foreground
  names and \<open>reset\<close> (at \<open>ESC[0m\<close>), the documented background names, and the
  styles \<open>bold\<close>, \<open>dim\<close>, \<open>italic\<close>, \<open>underline\<close>, \<open>blink\<close>, \<open>reverse\<close>,
  \<open>hidden\<close> and \<open>strike\<close>; the tables hold no other key. For every such name,
  written in any mix of upper and lower case, \<open>_get_style_codes\<close> returns exactly
  its sequence, the matched codes concatenated in the order foreground,
  background, styles as given; nothing is written and nothing is raised. The
  same holds when only a foreground, only a background, or a single style name
  instead of a list is given.
\<close>

theorem accepted_names_resolve:
  assumes "(lower fg, cf) \<in> set accepted_foreground"
    and "(lower b, cb) \<in> set accepted_background"
    and "list_all2 (\<lambda>s c. (lower s, c) \<in> set accepted_styles) ss cs"
    and "(lower s1, c1) \<in> set accepted_styles"
  shows "get_style_codes t fg (Some b) (StyleList ss) w = (Inr (cf @ cb @ concat cs), w)
       \<and> get_style_codes t fg None NoStyles w = (Inr cf, w)
       \<and> get_style_codes t [] (Some b) NoStyles w = (Inr cb, w)
       \<and> get_style_codes t fg (Some b) (OneStyle s1) w = (Inr (cf @ cb @ c1), w)
       \<and> (\<forall>k v. colors k = Some v \<longrightarrow> (k, v) \<in> set accepted_foreground)
       \<and> (\<forall>k v. backgrounds k = Some v \<longrightarrow> (k, v) \<in> set accepted_background)
       \<and> (\<forall>k v. styles_tbl k = Some v \<longrightarrow> (k, v) \<in> set accepted_styles)"
proof -
  from assms(1) have fg: "colors (lower fg) = Some cf" "fg \<noteq> []"
    using colors_accepted [of "lower fg" cf] by simp_all
  from assms(2) have bg: "backgrounds (lower b) = Some cb" "b \<noteq> []"
    using backgrounds_accepted [of "lower b" cb] by simp_all
  from assms(4) have s1: "styles_tbl (lower s1) = Some c1" "s1 \<noteq> []"
    using styles_accepted [of "lower s1" c1] by simp_all
  from assms(3) have "list_all2 (\<lambda>s c. styles_tbl (lower s) = Some c) ss cs"
    by (rule list_all2_mono) (simp add: styles_accepted)
  then have ss: "add_styles ss acc = Inr (acc @ cs)" for acc
    by (rule add_styles_all)
  have "lookup_codes fg (Some b) (StyleList ss) = Inr ([cf, cb] @ cs)"
    using fg bg ss by (simp add: lookup_codes_def add_fg_def add_bg_def)
  moreover have "lookup_codes fg None NoStyles = Inr [cf]"
    using fg by (simp add: lookup_codes_def add_fg_def add_bg_def)
  moreover have "lookup_codes [] (Some b) NoStyles = Inr [cb]"
    using bg by (simp add: lookup_codes_def add_fg_def add_bg_def)
  moreover have "lookup_codes fg (Some b) (OneStyle s1) = Inr [cf, cb, c1]"
    using fg bg s1 by (simp add: lookup_codes_def add_fg_def add_bg_def)
  ultimately show ?thesis
    using colors_only_accepted backgrounds_only_accepted styles_only_accepted
    by (simp add: get_style_codes_ok)
qed

theorem accepted_names_resolve_witness:
  "get_style_codes forced_terminal ''GrEeN'' (Some ''Light_RED'')
     (StyleList [''BOLD'', ''Strike'']) initial_world =
     (Inr (ESC # ''[32m'' @ ESC # ''[101m'' @ ESC # ''[1m'' @ ESC # ''[9m''), initial_world)
   \<and> get_style_codes forced_terminal ''GrEeN'' None NoStyles initial_world =
       (Inr (ESC # ''[32m''), initial_world)
   \<and> get_style_codes forced_terminal [] (Some ''Light_RED'') NoStyles initial_world =
       (Inr (ESC # ''[101m''), initial_world)
   \<and> get_style_codes forced_terminal ''GrEeN'' (Some ''Light_RED'') (OneStyle ''unDERline'')
       initial_world =
       (Inr (ESC # ''[32m'' @ ESC # ''[101m'' @ ESC # ''[4m''), initial_world)"
  using accepted_names_resolve [of "''GrEeN''" "ESC # ''[32m''" "''Light_RED''" "ESC # ''[101m''"
      "[''BOLD'', ''Strike'']" "[ESC # ''[1m'', ESC # ''[9m'']" "''unDERline''" "ESC # ''[4m''"
      forced_terminal initial_world]
  by (simp add: accepted_foreground_def accepted_background_def accepted_styles_def
      documented_foreground_def documented_background_def lower_def lower_char_def is_upper_def)

subsection \<open>The scoped context with color enabled\<close>

lemma color_context_on:
  assumes "color_enabled t"
  shows "\<exists>codes w1.
           get_style_codes t fg bg st w = (Inr codes, w1) \<and>
           builtins_print w1 = builtins_print w \<and> files w1 = files w \<and>
           color_context t fg bg st body w =
             (case body (w1\<lparr>builtins_print := StyledPrint codes\<rparr>) of
                (r, w2) \<Rightarrow> (r, write_stdout RESET (w2\<lparr>builtins_print := builtins_print w\<rparr>)))"
proof (cases "lookup_codes fg bg st")
  case (Inl msg)
  show ?thesis
    using get_style_codes_bad [OF assms Inl, of w] color_context_bad [OF assms Inl, of body w]
    by (simp add: write_stdout_printer)
next
  case (Inr codes)
  show ?thesis
    using get_style_codes_ok [OF Inr, of t w] color_context_ok [OF assms Inr, of body w]
    by simp
qed

lemma color_context_printer:
  assumes "color_enabled t"
  shows "builtins_print (snd (color_context t fg bg st body w)) = builtins_print w"
proof -
  from color_context_on [OF assms, of fg bg st w body]
  obtain codes w1 where
    c: "color_context t fg bg st body w =
          (case body (w1\<lparr>builtins_print := StyledPrint codes\<rparr>) of
             (r, w2) \<Rightarrow> (r, write_stdout RESET (w2\<lparr>builtins_print := builtins_print w\<rparr>)))"
    by blast
  obtain r w2 where "body (w1\<lparr>builtins_print := StyledPrint codes\<rparr>) = (r, w2)"
    by (cases "body (w1\<lparr>builtins_print := StyledPrint codes\<rparr>)")
  with c show ?thesis by simp
qed

text \<open>
  Claim C6. With color enabled, whatever the request and however the body of the
  \<open>with\<close> block ends, by returning (\<open>r = None\<close>) or by raising (\<open>r = Some e\<close>),
  the context hands the body's outcome on, sets \<open>builtins.print\<close> back to the
  function that was current when the context was entered, and writes the reset
  sequence after everything the body wrote. With color disabled the context
  replaces nothing and writes nothing: it is the body alone.
\<close>

theorem color_context_restores:
  "(color_enabled t \<longrightarrow>
      (\<exists>codes w1.
         get_style_codes t fg bg st w = (Inr codes, w1) \<and>
         (\<forall>r w2. body (w1\<lparr>builtins_print := StyledPrint codes\<rparr>) = (r, w2) \<longrightarrow>
            color_context t fg bg st body w =
              (r, w2\<lparr>builtins_print := builtins_print w,
                     stdout := stdout w2 @ ESC # ''[0m''\<rparr>))))
   \<and> (\<not> color_enabled t \<longrightarrow> color_context t fg bg st body w = body w)"
proof (intro conjI impI)
  assume on: "color_enabled t"
  from color_context_on [OF on, of fg bg st w body]
  obtain codes w1 where g: "get_style_codes t fg bg st w = (Inr codes, w1)"
    and c: "color_context t fg bg st body w =
             (case body (w1\<lparr>builtins_print := StyledPrint codes\<rparr>) of
                (r, w2) \<Rightarrow> (r, write_stdout RESET (w2\<lparr>builtins_print := builtins_print w\<rparr>)))"
    by blast
  from c have "\<forall>r w2. body (w1\<lparr>builtins_print := StyledPrint codes\<rparr>) = (r, w2) \<longrightarrow>
            color_context t fg bg st body w =
              (r, w2\<lparr>builtins_print := builtins_print w, stdout := stdout w2 @ ESC # ''[0m''\<rparr>)"
    by (simp add: write_stdout_def RESET_def sgr_def)
  with g show "\<exists>codes w1.
         get_style_codes t fg bg st w = (Inr codes, w1) \<and>
         (\<forall>r w2. body (w1\<lparr>builtins_print := StyledPrint codes\<rparr>) = (r, w2) \<longrightarrow>
            color_context t fg bg st body w =
              (r, w2\<lparr>builtins_print := builtins_print w,
                     stdout := stdout w2 @ ESC # ''[0m''\<rparr>))"
    by blast
next
  assume "\<not> color_enabled t"
  then show "color_context t fg bg st body w = body w"
    by (rule color_context_off)
qed

theorem color_context_restores_witness:
  "color_context forced_terminal ''green'' None NoStyles
     (\<lambda>w. (Some (Raised ''boom''), write_stdout ''partial'' w)) initial_world =
     (Some (Raised ''boom''),
      initial_world\<lparr>builtins_print := BuiltinPrint, stdout := ''partial'' @ ESC # ''[0m''\<rparr>)
   \<and> color_context piped_terminal ''green'' None NoStyles
     (\<lambda>w. (Some (Raised ''boom''), write_stdout ''partial'' w)) initial_world =
     (Some (Raised ''boom''), write_stdout ''partial'' initial_world)"
  using color_context_restores [of forced_terminal "''green''" None NoStyles initial_world
      "\<lambda>w. (Some (Raised ''boom''), write_stdout ''partial'' w)"]
    color_context_restores [of piped_terminal "''green''" None NoStyles initial_world
      "\<lambda>w. (Some (Raised ''boom''), write_stdout ''partial'' w)"]
  by (simp add: get_style_codes_ok [OF lookup_green] initial_world_def write_stdout_def)

text \<open>
  Claim C8. With color enabled, a scoped context always leaves \<open>builtins.print\<close>
  as it found it, so an inner context nested in an outer one hands control back
  with the outer context's styled print active, not the interpreter's own
  print: a \<open>print(x)\<close> that follows the inner block inside the outer block is
  written with the outer codes in front of it, and the outer exit then restores
  what was current before the outer context.
\<close>

theorem nested_context_restores_outer:
  assumes "color_enabled t"
  shows "builtins_print (snd (color_context t fg2 bg2 st2 inner w)) = builtins_print w
       \<and> (\<exists>outer_codes w1.
            get_style_codes t fg1 bg1 st1 w0 = (Inr outer_codes, w1) \<and>
            (\<forall>w2. color_context t fg2 bg2 st2 inner (w1\<lparr>builtins_print := StyledPrint outer_codes\<rparr>)
                    = (None, w2) \<longrightarrow>
               builtins_print w2 = StyledPrint outer_codes \<and>
               color_context t fg1 bg1 st1
                 (then_do (color_context t fg2 bg2 st2 inner) (py_print [PyStr x] no_kwargs)) w0 =
                 (None, w2\<lparr>builtins_print := builtins_print w0,
                           stdout := stdout w2 @ outer_codes @ x @ ESC # ''[0m''
                                     @ CHR 0x0A # ESC # ''[0m''\<rparr>)))"
proof
  show "builtins_print (snd (color_context t fg2 bg2 st2 inner w)) = builtins_print w"
    by (rule color_context_printer [OF assms])
next
  let ?rest = "then_do (color_context t fg2 bg2 st2 inner) (py_print [PyStr x] no_kwargs)"
  from color_context_on [OF assms, of fg1 bg1 st1 w0 ?rest]
  obtain oc w1 where g: "get_style_codes t fg1 bg1 st1 w0 = (Inr oc, w1)"
    and c: "color_context t fg1 bg1 st1 ?rest w0 =
             (case ?rest (w1\<lparr>builtins_print := StyledPrint oc\<rparr>) of
                (r, w2) \<Rightarrow> (r, write_stdout RESET (w2\<lparr>builtins_print := builtins_print w0\<rparr>)))"
    by blast
  have "builtins_print w2 = StyledPrint oc \<and>
        color_context t fg1 bg1 st1 ?rest w0 =
          (None, w2\<lparr>builtins_print := builtins_print w0,
                    stdout := stdout w2 @ oc @ x @ ESC # ''[0m'' @ CHR 0x0A # ESC # ''[0m''\<rparr>)"
    if i: "color_context t fg2 bg2 st2 inner (w1\<lparr>builtins_print := StyledPrint oc\<rparr>) = (None, w2)"
    for w2
  proof -
    from color_context_printer [OF assms, of fg2 bg2 st2 inner
        "w1\<lparr>builtins_print := StyledPrint oc\<rparr>"] i
    have p: "builtins_print w2 = StyledPrint oc"
      by simp
    then have "py_print [PyStr x] no_kwargs w2 = (None, write_stdout (oc @ x @ RESET @ NL) w2)"
      by (simp add: py_print_def styled_print_no_kwargs)
    with i have "?rest (w1\<lparr>builtins_print := StyledPrint oc\<rparr>) =
        (None, write_stdout (oc @ x @ RESET @ NL) w2)"
      by (simp add: then_do_def)
    with c have "color_context t fg1 bg1 st1 ?rest w0 =
          (None, w2\<lparr>builtins_print := builtins_print w0,
                    stdout := stdout w2 @ oc @ x @ ESC # ''[0m'' @ CHR 0x0A # ESC # ''[0m''\<rparr>)"
      by (simp add: write_stdout_def RESET_def NL_def sgr_def)
    with p show ?thesis by simp
  qed
  with g show "\<exists>outer_codes w1.
            get_style_codes t fg1 bg1 st1 w0 = (Inr outer_codes, w1) \<and>
            (\<forall>w2. color_context t fg2 bg2 st2 inner (w1\<lparr>builtins_print := StyledPrint outer_codes\<rparr>)
                    = (None, w2) \<longrightarrow>
               builtins_print w2 = StyledPrint outer_codes \<and>
               color_context t fg1 bg1 st1
                 (then_do (color_context t fg2 bg2 st2 inner) (py_print [PyStr x] no_kwargs)) w0 =
                 (None, w2\<lparr>builtins_print := builtins_print w0,
                           stdout := stdout w2 @ outer_codes @ x @ ESC # ''[0m''
                                     @ CHR 0x0A # ESC # ''[0m''\<rparr>))"
    by blast
qed

lemma lookup_red_bold: "lookup_codes ''red'' None (OneStyle ''bold'') = Inr [sgr ''31'', sgr ''1'']"
  by (simp add: lookup_codes_def add_fg_def add_bg_def colors_unfold styles_unfold sgr_def
      lower_def lower_char_def is_upper_def)

theorem nested_context_restores_outer_witness:
  "color_context forced_terminal ''red'' None (OneStyle ''bold'')
     (then_do (color_context forced_terminal ''green'' None NoStyles
                 (py_print [PyStr ''in''] no_kwargs))
              (py_print [PyStr ''out''] no_kwargs)) initial_world =
     (None, initial_world\<lparr>stdout :=
        ESC # ''[32min'' @ ESC # ''[0m'' @ CHR 0x0A # ESC # ''[0m''
        @ ESC # ''[31m'' @ ESC # ''[1mout'' @ ESC # ''[0m'' @ CHR 0x0A # ESC # ''[0m''\<rparr>)"
proof -
  let ?w1 = "initial_world\<lparr>builtins_print := StyledPrint (ESC # ''[31m'' @ ESC # ''[1m'')\<rparr>"
  let ?w2 = "?w1\<lparr>stdout := ESC # ''[32min'' @ ESC # ''[0m'' @ CHR 0x0A # ESC # ''[0m''\<rparr>"
  have g: "get_style_codes forced_terminal ''red'' None (OneStyle ''bold'') initial_world =
             (Inr (ESC # ''[31m'' @ ESC # ''[1m''), initial_world)"
    by (simp add: get_style_codes_ok [OF lookup_red_bold] sgr_def)
  have i: "color_context forced_terminal ''green'' None NoStyles
             (py_print [PyStr ''in''] no_kwargs) ?w1 = (None, ?w2)"
    by (simp add: color_context_ok [OF color_enabled_forced lookup_green] py_print_def
        styled_print_no_kwargs write_stdout_def initial_world_def sgr_def RESET_def NL_def)
  from nested_context_restores_outer [OF color_enabled_forced,
      of "''green''" None NoStyles "py_print [PyStr ''in''] no_kwargs" initial_world
         "''red''" None "OneStyle ''bold''" initial_world "''out''"] g i
  show ?thesis
    by (simp add: initial_world_def)
qed


lemma kwargs_get_print_default:
  "k \<noteq> IsNone \<Longrightarrow> kwargs_get k d = Some (print_default k d)"
  by (cases k) simp_all

lemma styled_print_file_flush:
  "styled_print c args (kw\<lparr>kw_file := f, kw_flush := fl\<rparr>) w = styled_print c args kw w"
  by (simp add: styled_print_def)



subsection \<open>Printed text without escape bytes\<close>

lemma hexdigit_not_ESC: "hexdigit n \<noteq> CHR 0x1B" "CHR 0x1B \<noteq> hexdigit n"
proof -
  have "hexdigit n \<in> set ''0123456789abcdef''"
    unfolding hexdigit_def by (rule nth_mem) simp
  then show "hexdigit n \<noteq> CHR 0x1B" "CHR 0x1B \<noteq> hexdigit n" by auto
qed

lemma py_repr_latin1:
  "py_repr [CHR 0x85, CHR 0xA0, CHR 0xAD, CHR 0xE9, CHR 0x7F, CHR ''a''] =
     [CHR 0x27, CHR 0x5C] @ ''x85'' @ [CHR 0x5C] @ ''xa0'' @ [CHR 0x5C] @ ''xad''
       @ [CHR 0xE9, CHR 0x5C] @ ''x7fa'' @ [CHR 0x27]"
  by (simp add: py_repr_def repr_char_def hexdigit_def Let_def)

lemma repr_char_no_ESC: "q \<noteq> ESC \<Longrightarrow> ESC \<notin> set (repr_char q c)"
  by (auto simp: repr_char_def ESC_def hexdigit_not_ESC)

lemma py_repr_no_ESC: "ESC \<notin> set (py_repr s)"
proof -
  have "ESC \<notin> set (q # concat (map (repr_char q) s) @ [q])" if "q \<noteq> ESC" for q
    using that repr_char_no_ESC [OF that] by auto
  moreover have "CHR 0x22 \<noteq> ESC" "CHR 0x27 \<noteq> ESC"
    by (simp_all add: ESC_def)
  ultimately show ?thesis
    by (simp add: py_repr_def Let_def)
qed

lemma join_no_ESC:
  "ESC \<notin> set sep \<Longrightarrow> \<forall>x \<in> set xs. ESC \<notin> set x \<Longrightarrow> ESC \<notin> set (join sep xs)"
  by (induction sep xs rule: join.induct) auto

lemma py_str_no_ESC: "plain v \<Longrightarrow> ESC \<notin> set (py_str v)"
proof (cases v)
  case (PyStr s)
  assume "plain v"
  with PyStr show ?thesis by simp
next
  case PyNone
  have "ESC \<notin> set ''None''" by (simp add: ESC_def)
  with PyNone show ?thesis by simp
next
  case (PyList xs)
  have sep: "ESC \<notin> set '', ''" by (simp add: ESC_def)
  have "\<forall>x \<in> set (map py_repr xs). ESC \<notin> set x"
    using py_repr_no_ESC by auto
  with sep have "ESC \<notin> set (join '', '' (map py_repr xs))"
    by (rule join_no_ESC)
  moreover have "ESC \<noteq> CHR ''[''" "ESC \<noteq> CHR '']''"
    by (simp_all add: ESC_def)
  ultimately show ?thesis using PyList by simp
qed

lemma builtin_line_no_ESC:
  assumes "list_all plain args"
  shows "ESC \<notin> set (join '' '' (map py_str (take n args)) @ [CHR 0x0A])"
proof -
  have "\<forall>v \<in> set (take n args). plain v"
    using assms by (auto simp: list_all_iff dest: in_set_takeD)
  then have "\<forall>x \<in> set (map py_str (take n args)). ESC \<notin> set x"
    using py_str_no_ESC by auto
  moreover have "ESC \<notin> set '' ''" by (simp add: ESC_def)
  ultimately have "ESC \<notin> set (join '' '' (map py_str (take n args)))"
    using join_no_ESC by blast
  moreover have "ESC \<noteq> CHR 0x0A" by (simp add: ESC_def)
  ultimately show ?thesis by simp
qed

lemma print_styled_off_builtin:
  assumes "\<not> color_enabled t" and "builtins_print w = BuiltinPrint"
  shows "print_styled t npos message prefix fg bg st w =
           (None, w\<lparr>stdout := stdout w
              @ join '' '' (map py_str (take npos [PyStr message, opt_val prefix, PyStr fg,
                                                    opt_val bg, styles_val st]))
              @ [CHR 0x0A]\<rparr>)"
proof -
  have "print_styled t npos message prefix fg bg st w =
          py_print (take npos [PyStr message, opt_val prefix, PyStr fg, opt_val bg, styles_val st])
            no_kwargs w"
    using assms(1) by (rule print_styled_off)
  also have "\<dots> = (None, w\<lparr>stdout := stdout w
              @ join '' '' (map py_str (take npos [PyStr message, opt_val prefix, PyStr fg,
                                                    opt_val bg, styles_val st]))
              @ [CHR 0x0A]\<rparr>)"
    using assms(2)
    by (simp add: py_print_def builtin_print_def no_kwargs_def write_stdout_def NL_def
        del: take_Cons_numeral)
  finally show ?thesis .
qed

lemma print_styled_writes_plain:
  assumes "\<not> color_enabled t" and "builtins_print w = BuiltinPrint"
    and "list_all plain args \<Longrightarrow>
         list_all plain [PyStr message, opt_val prefix, PyStr fg, opt_val bg, styles_val st]"
  shows "writes_plain w args (print_styled t npos message prefix fg bg st w)"
  unfolding writes_plain_def
  using print_styled_off_builtin [OF assms(1,2), of npos message prefix fg bg st]
    builtin_line_no_ESC [of "[PyStr message, opt_val prefix, PyStr fg, opt_val bg, styles_val st]"
      npos] assms(3)
  by blast




end
